theory Spec2Isabelle
  imports Main "HOL-Library.Log_Nat"
begin

section \<open>Python values used by the pipeline\<close>

text \<open>
  The pipeline of \<^verbatim>\<open>app.py\<close> is embedded function by function. Python integers are
  \<open>int\<close>, byte strings are lists of naturals, text is \<open>string\<close>, and an exception
  that a call raises is the left summand of the result.
\<close>

type_synonym bytes = "nat list"

datatype exn = TypeError | ValueError | OSError | KeyError | ZeroDivisionError | OtherError string

definition bind_exn :: "exn + 'a \<Rightarrow> ('a \<Rightarrow> exn + 'b) \<Rightarrow> exn + 'b" where
  "bind_exn m f = (case m of Inl e \<Rightarrow> Inl e | Inr x \<Rightarrow> f x)"

subsection \<open>Floating point\<close>

text \<open>
  A Python \<^verbatim>\<open>float\<close> is an IEEE binary64 number. A finite float is a rational; each
  arithmetic operation returns the exact result rounded to 53 significant bits, ties to
  even. Image dimensions and percentages stay far inside the normal range, so overflow,
  subnormals, infinities and NaN are left out of the model.
\<close>

definition round_half_even :: "rat \<Rightarrow> int" where
  "round_half_even x =
     (let f = \<lfloor>x\<rfloor>; d = x - of_int f
      in if d < 1 / 2 then f
         else if 1 / 2 < d then f + 1
         else if even f then f else f + 1)"

definition pow2 :: "int \<Rightarrow> rat" where
  "pow2 e = (if 0 \<le> e then 2 ^ nat e else 1 / 2 ^ nat (- e))"

definition float_exponent :: "rat \<Rightarrow> int" where
  \<comment> \<open>the integer \<open>e\<close> with \<open>2 ^ e \<le> |x| < 2 ^ (e + 1)\<close>, for \<open>x \<noteq> 0\<close>\<close>
  "float_exponent x =
     (let (a, b) = quotient_of \<bar>x\<bar>; d = bitlen a - bitlen b
      in if pow2 d \<le> \<bar>x\<bar> then d else d - 1)"

definition fl :: "rat \<Rightarrow> rat" where
  \<comment> \<open>round to the nearest binary64 number\<close>
  "fl x =
     (if x = 0 then 0
      else let u = pow2 (float_exponent x - 52)
           in of_int (round_half_even (x / u)) * u)"

definition py_truediv :: "rat \<Rightarrow> rat \<Rightarrow> rat" where
  \<comment> \<open>\<^verbatim>\<open>a / b\<close> on floats, for \<open>b \<noteq> 0\<close>\<close>
  "py_truediv a b = fl (a / b)"

definition py_mul :: "rat \<Rightarrow> rat \<Rightarrow> rat" where
  \<comment> \<open>\<^verbatim>\<open>a * b\<close> on floats\<close>
  "py_mul a b = fl (a * b)"

definition py_round :: "rat \<Rightarrow> int" where
  \<comment> \<open>\<^verbatim>\<open>round(x)\<close> of a float: nearest integer, ties to even\<close>
  "py_round x = round_half_even x"

definition py_int :: "rat \<Rightarrow> int" where
  \<comment> \<open>\<^verbatim>\<open>int(x)\<close> of a float: truncation towards zero\<close>
  "py_int x = (if 0 \<le> x then \<lfloor>x\<rfloor> else \<lceil>x\<rceil>)"

definition fl32 :: "rat \<Rightarrow> rat" where
  \<comment> \<open>round to the nearest binary32 number (a C \<^verbatim>\<open>float\<close>): 24 significant bits\<close>
  "fl32 x =
     (if x = 0 then 0
      else let u = pow2 (float_exponent x - 23)
           in of_int (round_half_even (x / u)) * u)"

section \<open>Images and the imaging library\<close>

text \<open>
  A decoded image carries its size, its mode string, the \<^verbatim>\<open>info\<close> dictionary (an
  association list; the keys \<^verbatim>\<open>icc_profile\<close> and \<^verbatim>\<open>exif\<close> are read by the pipeline) and
  its pixel buffer.
\<close>

record image =
  width :: int
  height :: int
  mode :: string
  info :: "(string \<times> bytes) list"
  pixels :: bytes


subsection \<open>Strings\<close>

text \<open>Characters are bytes; \<^verbatim>\<open>lower\<close> and \<^verbatim>\<open>upper\<close> are modelled on ASCII letters.\<close>

definition lower_char :: "char \<Rightarrow> char" where
  "lower_char c = (let n = (of_char c :: nat) in if 65 \<le> n \<and> n \<le> 90 then char_of (n + 32) else c)"

definition upper_char :: "char \<Rightarrow> char" where
  "upper_char c = (let n = (of_char c :: nat) in if 97 \<le> n \<and> n \<le> 122 then char_of (n - 32) else c)"

definition lower :: "string \<Rightarrow> string" where
  "lower s = map lower_char s"

definition upper :: "string \<Rightarrow> string" where
  "upper s = map upper_char s"

definition endswith :: "string \<Rightarrow> string \<Rightarrow> bool" where
  "endswith s t = (length t \<le> length s \<and> drop (length s - length t) s = t)"

definition replace_char :: "char \<Rightarrow> char \<Rightarrow> string \<Rightarrow> string" where
  "replace_char a b s = map (\<lambda>c. if c = a then b else c) s"

fun split_on :: "char \<Rightarrow> string \<Rightarrow> string list" where
  "split_on sep [] = [[]]"
| "split_on sep (c # cs) =
     (if c = sep then [] # split_on sep cs
      else (case split_on sep cs of [] \<Rightarrow> [[c]] | w # ws \<Rightarrow> (c # w) # ws))"

definition rfind :: "string \<Rightarrow> char \<Rightarrow> int" where
  "rfind s c =
     (if c \<in> set s then int (length s) - 1 - int (length (takeWhile (\<lambda>x. x \<noteq> c) (rev s)))
      else - 1)"

subsection \<open>The imaging library\<close>

text \<open>
  The pipeline calls Pillow for every pixel operation. The library is a parameter of the
  model: a record with one field per library call the source makes. A call that can raise
  returns a sum. \<^verbatim>\<open>save\<close> writes into a buffer and may touch the image it is called on,
  so it returns the exception raised (if any), the buffer after the call and the receiver
  after the call. \<^verbatim>\<open>copy\<close> returns a new object with the value of the old one; on values
  it is the identity.
\<close>

definition Image_copy :: "image \<Rightarrow> image" where
  "Image_copy img = img"

record save_kw =
  kw_format :: string
  kw_quality :: "int option"
  kw_optimize :: "bool option"
  kw_progressive :: "bool option"
  kw_method :: "int option"
  kw_exif :: "bytes option"

record zip_member =
  zm_filename :: string
  zm_is_dir :: bool

text \<open>
  The fields stand for these calls of the source:
  \<^item> \<open>Image_open\<close>, \<open>exif_transpose\<close>: \<^verbatim>\<open>Image.open\<close>, \<^verbatim>\<open>ImageOps.exif_transpose\<close>;
  \<^item> \<open>ZipFile_infolist\<close>: \<^verbatim>\<open>zipfile.ZipFile(...).infolist()\<close>; \<open>ZipFile_open\<close>: \<^verbatim>\<open>zf.open(info)\<close>,
    whose result is read later (the inner sum is the outcome of \<^verbatim>\<open>f.read()\<close>);
  \<^item> \<open>Image_convert\<close>, \<open>Image_resize\<close>: \<^verbatim>\<open>img.convert(mode)\<close> and
    \<^verbatim>\<open>img.resize(size, Image.LANCZOS)\<close>;
  \<^item> \<open>Image_alpha\<close>: \<^verbatim>\<open>wm.split()[-1]\<close>; \<open>Brightness_enhance\<close>:
    \<^verbatim>\<open>ImageEnhance.Brightness(alpha).enhance(factor)\<close>; \<open>Image_putalpha\<close>: \<^verbatim>\<open>wm.putalpha(alpha)\<close>,
    returning the watermark after the update;
  \<^item> \<open>Image_alpha_composite\<close>: \<^verbatim>\<open>out.alpha_composite(wm, dest=xy)\<close>, returning \<open>out\<close> after
    the update;
  \<^item> \<open>Image_save\<close>: \<^verbatim>\<open>work.save(buf, ...)\<close> with the buffer contents before the call and the
    keyword arguments;
  \<^item> \<open>ImageCmsProfile\<close>, \<open>createProfile\<close>, \<open>profileToProfile\<close>: the three calls into
    \<^verbatim>\<open>ImageCms\<close>, the last with its \<^verbatim>\<open>outputMode\<close>.
\<close>

record pil =
  Image_open :: "bytes \<Rightarrow> exn + image"
  exif_transpose :: "image \<Rightarrow> exn + image"
  ZipFile_infolist :: "bytes \<Rightarrow> exn + zip_member list"
  ZipFile_open :: "bytes \<Rightarrow> zip_member \<Rightarrow> exn + (exn + bytes)"
  Image_convert :: "image \<Rightarrow> string \<Rightarrow> exn + image"
  Image_resize :: "image \<Rightarrow> int \<times> int \<Rightarrow> exn + image"
  Image_alpha :: "image \<Rightarrow> image"
  Image_putalpha :: "image \<Rightarrow> image \<Rightarrow> image"
  Image_alpha_composite :: "image \<Rightarrow> image \<Rightarrow> int \<times> int \<Rightarrow> exn + image"
  Image_save :: "image \<Rightarrow> bytes \<Rightarrow> save_kw \<Rightarrow> exn option \<times> bytes \<times> image"
  Brightness_enhance :: "image \<Rightarrow> rat \<Rightarrow> image"
  ImageCmsProfile :: "bytes \<Rightarrow> exn + bytes"
  createProfile :: "string \<Rightarrow> exn + bytes"
  profileToProfile :: "image \<Rightarrow> bytes \<Rightarrow> bytes \<Rightarrow> string \<Rightarrow> exn + image"

text \<open>
  What the watermark step needs from the library is stated for the operands at hand.
  \<^verbatim>\<open>ImageEnhance.Brightness(band).enhance(factor)\<close> blends the band with a black band: for a
  factor in \<open>[0, 1]\<close> Pillow computes each 8-bit sample \<open>v\<close> in single precision as
  \<^verbatim>\<open>(UINT8)(0 + factor * v)\<close>, the product \<open>factor * v\<close> cut to an integer. \<^verbatim>\<open>putalpha\<close>
  installs the band it is given as the alpha band, and \<^verbatim>\<open>alpha_composite\<close> leaves the
  destination as it is where the overlay is fully transparent.
\<close>

definition blend_sample :: "rat \<Rightarrow> nat \<Rightarrow> nat" where
  "blend_sample factor v = nat (py_int (fl32 (fl32 factor * of_nat v)))"

definition brightness_scales :: "pil \<Rightarrow> image \<Rightarrow> rat \<Rightarrow> bool" where
  "brightness_scales L a factor =
     (pixels (Brightness_enhance L a factor) = map (blend_sample factor) (pixels a))"

definition putalpha_installs :: "pil \<Rightarrow> image \<Rightarrow> image \<Rightarrow> bool" where
  "putalpha_installs L wm a = (pixels (Image_alpha L (Image_putalpha L wm a)) = pixels a)"

definition transparent_overlay_kept :: "pil \<Rightarrow> image \<Rightarrow> image \<Rightarrow> int \<times> int \<Rightarrow> bool" where
  "transparent_overlay_kept L out wm xy =
     (list_all (\<lambda>p. p = 0) (pixels (Image_alpha L wm)) \<longrightarrow>
        Image_alpha_composite L out wm xy = Inr out)"

section \<open>Helpers of the pipeline\<close>

subsection \<open>\<^verbatim>\<open>read_uploaded_images\<close>\<close>

record uploaded_file =
  uf_name :: "string option"
  uf_data :: bytes

definition image_extensions :: "string list" where
  "image_extensions = [''.jpg'', ''.jpeg'', ''.png'', ''.webp'', ''.tif'', ''.tiff'']"

definition open_and_transpose :: "pil \<Rightarrow> bytes \<Rightarrow> exn + image" where
  \<comment> \<open>the body of both \<^verbatim>\<open>try\<close> blocks: \<^verbatim>\<open>Image.open\<close>, then \<^verbatim>\<open>ImageOps.exif_transpose\<close>\<close>
  "open_and_transpose L d = bind_exn (Image_open L d) (exif_transpose L)"

fun read_zip_members ::
  "pil \<Rightarrow> bytes \<Rightarrow> zip_member list \<Rightarrow> (string \<times> image) list \<Rightarrow> exn + (string \<times> image) list" where
  "read_zip_members L d [] images = Inr images"
| "read_zip_members L d (m # ms) images =
     (if zm_is_dir m then read_zip_members L d ms images
      else if \<not> (\<exists>e \<in> set image_extensions. endswith (lower (zm_filename m)) e)
        then read_zip_members L d ms images
      else
        (case ZipFile_open L d m of
           Inl e \<Rightarrow> Inl e
         | Inr f \<Rightarrow>
             (case bind_exn f (open_and_transpose L) of
                Inl e \<Rightarrow> read_zip_members L d ms images
              | Inr im \<Rightarrow> read_zip_members L d ms (images @ [(zm_filename m, im)]))))"

fun read_files ::
  "pil \<Rightarrow> uploaded_file list \<Rightarrow> (string \<times> image) list \<Rightarrow> exn + (string \<times> image) list" where
  "read_files L [] images = Inr images"
| "read_files L (uf # ufs) images =
     (let name = (case uf_name uf of None \<Rightarrow> ''upload'' | Some n \<Rightarrow> n)
      in if endswith (lower name) ''.zip'' then
           bind_exn (ZipFile_infolist L (uf_data uf)) (\<lambda>ms.
           bind_exn (read_zip_members L (uf_data uf) ms images) (\<lambda>images'.
           read_files L ufs images'))
         else
           (case open_and_transpose L (uf_data uf) of
              Inl e \<Rightarrow> read_files L ufs images
            | Inr im \<Rightarrow> read_files L ufs (images @ [(name, im)])))"

definition read_uploaded_images ::
  "pil \<Rightarrow> uploaded_file list option \<Rightarrow> exn + (string \<times> image) list" where
  "read_uploaded_images L uploaded_files =
     (case uploaded_files of
        None \<Rightarrow> Inr []
      | Some ufs \<Rightarrow> if ufs = [] then Inr [] else read_files L ufs [])"

subsection \<open>\<^verbatim>\<open>ensure_rgb_and_srgb\<close>\<close>

definition icc_or_plain :: "pil \<Rightarrow> image \<Rightarrow> exn + image" where
  \<comment> \<open>the body of the \<^verbatim>\<open>try\<close> block\<close>
  "icc_or_plain L img =
     (case map_of (info img) ''icc_profile'' of
        Some icc \<Rightarrow>
          bind_exn (ImageCmsProfile L icc) (\<lambda>src_profile.
          bind_exn (createProfile L ''sRGB'') (\<lambda>dst_profile.
          profileToProfile L img src_profile dst_profile ''RGB''))
      | None \<Rightarrow> Image_convert L img ''RGB'')"

definition ensure_rgb_and_srgb :: "pil \<Rightarrow> image \<Rightarrow> bool \<Rightarrow> exn + image" where
  "ensure_rgb_and_srgb L img convert_to_srgb =
     (if convert_to_srgb then
        (case icc_or_plain L img of
           Inr img' \<Rightarrow> Inr img'
         | Inl e \<Rightarrow> Image_convert L img ''RGB'')
      else if mode img \<noteq> ''RGB'' \<and> mode img \<noteq> ''RGBA'' then Image_convert L img ''RGB''
      else Inr img)"

subsection \<open>\<^verbatim>\<open>resize_to_long_edge\<close>\<close>

definition resize_dims :: "image \<Rightarrow> int \<Rightarrow> int \<times> int" where
  \<comment> \<open>\<^verbatim>\<open>(new_w, new_h)\<close> of lines 69 to 71\<close>
  "resize_dims img target_long =
     (let w = width img; h = height img;
          long_side = max w h;
          scale = py_truediv (of_int target_long) (of_int long_side);
          new_w = py_round (py_mul (of_int w) scale);
          new_h = py_round (py_mul (of_int h) scale)
      in (new_w, new_h))"

definition resize_to_long_edge :: "pil \<Rightarrow> image \<Rightarrow> int \<Rightarrow> exn + image" where
  "resize_to_long_edge L img target_long =
     (let w = width img; h = height img;
          long_side = max w h
      in if target_long \<le> 0 \<or> long_side \<le> target_long then Inr img
         else Image_resize L img (resize_dims img target_long))"

subsection \<open>\<^verbatim>\<open>apply_watermark\<close>\<close>

definition py_getitem :: "('k \<times> 'v) list \<Rightarrow> 'k \<Rightarrow> exn + 'v" where
  \<comment> \<open>\<^verbatim>\<open>d[k]\<close> on a dictionary\<close>
  "py_getitem d k = (case map_of d k of None \<Rightarrow> Inl KeyError | Some v \<Rightarrow> Inr v)"

definition py_get :: "('k \<times> 'v) list \<Rightarrow> 'k \<Rightarrow> 'v \<Rightarrow> 'v" where
  \<comment> \<open>\<^verbatim>\<open>d.get(k, default)\<close>\<close>
  "py_get d k dflt = (case map_of d k of None \<Rightarrow> dflt | Some v \<Rightarrow> v)"

definition scale_watermark :: "pil \<Rightarrow> image \<Rightarrow> image \<Rightarrow> rat \<Rightarrow> exn + image" where
  \<comment> \<open>lines 88 to 90: the watermark is scaled to a share of the base width\<close>
  "scale_watermark L base wm scale_pct =
     (let target_w = max 1 (py_int (py_mul (of_int (width base)) (py_truediv scale_pct 100)))
      in if width wm = 0 then Inl ZeroDivisionError
         else
           (let scale = py_truediv (of_int target_w) (of_int (width wm))
            in Image_resize L wm (target_w, max 1 (py_int (py_mul (of_int (height wm)) scale)))))"

definition apply_opacity :: "pil \<Rightarrow> image \<Rightarrow> rat \<Rightarrow> image" where
  \<comment> \<open>lines 93 to 96\<close>
  "apply_opacity L wm opacity_pct =
     (if 0 \<le> opacity_pct \<and> opacity_pct < 100 then
        (let alpha = Image_alpha L wm;
             alpha = Brightness_enhance L alpha (py_truediv opacity_pct 100)
         in Image_putalpha L wm alpha)
      else wm)"

definition positions :: "image \<Rightarrow> image \<Rightarrow> int \<Rightarrow> (string \<times> (int \<times> int)) list" where
  \<comment> \<open>lines 99 to 105\<close>
  "positions base wm margin_px =
     [(''top-left'', (margin_px, margin_px)),
      (''top-right'', (width base - width wm - margin_px, margin_px)),
      (''bottom-left'', (margin_px, height base - height wm - margin_px)),
      (''bottom-right'', (width base - width wm - margin_px, height base - height wm - margin_px)),
      (''center'', ((width base - width wm) div 2, (height base - height wm) div 2))]"

definition place_watermark :: "image \<Rightarrow> image \<Rightarrow> string \<Rightarrow> int \<Rightarrow> exn + int \<times> int" where
  \<comment> \<open>line 106; the default argument is evaluated before \<^verbatim>\<open>get\<close> is called\<close>
  "place_watermark base wm position margin_px =
     bind_exn (py_getitem (positions base wm margin_px) ''bottom-right'') (\<lambda>dflt.
     Inr (py_get (positions base wm margin_px) position dflt))"

definition apply_watermark ::
  "pil \<Rightarrow> image \<Rightarrow> image option \<Rightarrow> string \<Rightarrow> rat \<Rightarrow> rat \<Rightarrow> int \<Rightarrow> exn + image" where
  "apply_watermark L base watermark position scale_pct opacity_pct margin_px =
     (case watermark of
        None \<Rightarrow> Inr base
      | Some wmk \<Rightarrow>
          bind_exn (Image_convert L base ''RGBA'') (\<lambda>base.
          bind_exn (Image_convert L wmk ''RGBA'') (\<lambda>wm.
          bind_exn (scale_watermark L base wm scale_pct) (\<lambda>wm.
          let wm = apply_opacity L wm opacity_pct
          in bind_exn (place_watermark base wm position margin_px) (\<lambda>xy.
             let out = Image_copy base
             in bind_exn (Image_alpha_composite L out wm xy) (\<lambda>out.
                Image_convert L out ''RGB''))))))"

subsection \<open>\<^verbatim>\<open>save_image_bytes\<close>\<close>

definition exif_of :: "image \<Rightarrow> bool \<Rightarrow> bytes" where
  \<comment> \<open>line 121\<close>
  "exif_of img keep_metadata =
     (if keep_metadata then (case map_of (info img) ''exif'' of None \<Rightarrow> [] | Some b \<Rightarrow> b) else [])"

definition jpeg_kw :: "int \<Rightarrow> bool \<Rightarrow> bool \<Rightarrow> bytes \<Rightarrow> save_kw" where
  "jpeg_kw quality optimize progressive exif_bytes =
     \<lparr>kw_format = ''JPEG'', kw_quality = Some quality, kw_optimize = Some optimize,
      kw_progressive = Some progressive, kw_method = None, kw_exif = Some exif_bytes\<rparr>"

definition webp_kw :: "int \<Rightarrow> bytes \<Rightarrow> save_kw" where
  "webp_kw quality exif_bytes =
     \<lparr>kw_format = ''WEBP'', kw_quality = Some quality, kw_optimize = None,
      kw_progressive = None, kw_method = Some 6, kw_exif = Some exif_bytes\<rparr>"

definition webp_plain_kw :: "int \<Rightarrow> save_kw" where
  "webp_plain_kw quality =
     \<lparr>kw_format = ''WEBP'', kw_quality = Some quality, kw_optimize = None,
      kw_progressive = None, kw_method = None, kw_exif = None\<rparr>"

definition png_kw :: save_kw where
  "png_kw =
     \<lparr>kw_format = ''PNG'', kw_quality = None, kw_optimize = None,
      kw_progressive = None, kw_method = None, kw_exif = None\<rparr>"

definition save_image_bytes ::
  "pil \<Rightarrow> image \<Rightarrow> string \<Rightarrow> int \<Rightarrow> bool \<Rightarrow> bool \<Rightarrow> bool \<Rightarrow> exn + bytes" where
  "save_image_bytes L img fmt quality progressive optimize keep_metadata =
     (let fmt = upper fmt;
          exif_bytes = exif_of img keep_metadata;
          work = Image_copy img;
          buf = []
      in if fmt = ''JPEG'' then
           bind_exn (Image_convert L work ''RGB'') (\<lambda>work.
           case Image_save L work buf (jpeg_kw quality optimize progressive exif_bytes) of
             (None, buf, work) \<Rightarrow> Inr buf
           | (Some e, buf, work) \<Rightarrow> Inl e)
         else if fmt = ''WEBP'' then
           (case Image_save L work buf (webp_kw quality exif_bytes) of
              (None, buf, work) \<Rightarrow> Inr buf
            | (Some TypeError, buf, work) \<Rightarrow>
                (case Image_save L work buf (webp_plain_kw quality) of
                   (None, buf, work) \<Rightarrow> Inr buf
                 | (Some e, buf, work) \<Rightarrow> Inl e)
            | (Some e, buf, work) \<Rightarrow> Inl e)
         else
           (case Image_save L work buf png_kw of
              (None, buf, work) \<Rightarrow> Inr buf
            | (Some e, buf, work) \<Rightarrow> Inl e))"

text \<open>
  The same function over a store of image objects, for the question of which objects a
  call changes. An object is named by its index in the store; \<^verbatim>\<open>copy\<close> and \<^verbatim>\<open>convert\<close>
  create a new object, \<^verbatim>\<open>save\<close> updates the object it is called on.
\<close>

type_synonym store = "image list"

definition alloc :: "store \<Rightarrow> image \<Rightarrow> store \<times> nat" where
  "alloc s v = (s @ [v], length s)"

definition save_st :: "pil \<Rightarrow> store \<Rightarrow> nat \<Rightarrow> bytes \<Rightarrow> save_kw \<Rightarrow> exn option \<times> bytes \<times> store" where
  \<comment> \<open>\<^verbatim>\<open>work.save(buf, ...)\<close> on the object at address \<open>work\<close>\<close>
  "save_st L s work buf kw =
     (case Image_save L (s ! work) buf kw of (r, buf', work') \<Rightarrow> (r, buf', s[work := work']))"

definition save_image_bytes_st ::
  "pil \<Rightarrow> store \<Rightarrow> nat \<Rightarrow> string \<Rightarrow> int \<Rightarrow> bool \<Rightarrow> bool \<Rightarrow> bool \<Rightarrow> (exn + bytes) \<times> store" where
  "save_image_bytes_st L s img fmt quality progressive optimize keep_metadata =
     (let fmt = upper fmt;
          exif_bytes = exif_of (s ! img) keep_metadata;
          (s, work) = alloc s (Image_copy (s ! img));
          buf = []
      in if fmt = ''JPEG'' then
           (case Image_convert L (s ! work) ''RGB'' of
              Inl e \<Rightarrow> (Inl e, s)
            | Inr c \<Rightarrow>
                (let (s, work) = alloc s c
                 in case save_st L s work buf (jpeg_kw quality optimize progressive exif_bytes) of
                      (None, buf, s) \<Rightarrow> (Inr buf, s)
                    | (Some e, buf, s) \<Rightarrow> (Inl e, s)))
         else if fmt = ''WEBP'' then
           (case save_st L s work buf (webp_kw quality exif_bytes) of
              (None, buf, s) \<Rightarrow> (Inr buf, s)
            | (Some TypeError, buf, s) \<Rightarrow>
                (case save_st L s work buf (webp_plain_kw quality) of
                   (None, buf, s) \<Rightarrow> (Inr buf, s)
                 | (Some e, buf, s) \<Rightarrow> (Inl e, s))
            | (Some e, buf, s) \<Rightarrow> (Inl e, s))
         else
           (case save_st L s work buf png_kw of
              (None, buf, s) \<Rightarrow> (Inr buf, s)
            | (Some e, buf, s) \<Rightarrow> (Inl e, s)))"

record encode_opts =
  eo_fmt :: string
  eo_quality :: int
  eo_progressive :: bool
  eo_optimize :: bool
  eo_keep_metadata :: bool

fun encode_calls :: "pil \<Rightarrow> store \<Rightarrow> nat \<Rightarrow> encode_opts list \<Rightarrow> (exn + bytes) list \<times> store" where
  \<comment> \<open>a caller that encodes the same image object once per entry of the list\<close>
  "encode_calls L s img [] = ([], s)"
| "encode_calls L s img (c # cs) =
     (case save_image_bytes_st L s img (eo_fmt c) (eo_quality c) (eo_progressive c)
             (eo_optimize c) (eo_keep_metadata c) of
        (r, s') \<Rightarrow> (case encode_calls L s' img cs of (rs, s'') \<Rightarrow> (r # rs, s'')))"

subsection \<open>\<^verbatim>\<open>process_one\<close> and \<^verbatim>\<open>filename_with_suffix\<close>\<close>

definition process_one ::
  "pil \<Rightarrow> image \<Rightarrow> int \<Rightarrow> string \<Rightarrow> int \<Rightarrow> bool \<Rightarrow> bool \<Rightarrow> bool \<Rightarrow> bool \<Rightarrow>
   image option \<Rightarrow> string \<Rightarrow> rat \<Rightarrow> rat \<Rightarrow> int \<Rightarrow> exn + image" where
  "process_one L image0 target_long out_fmt quality progressive optimize convert_to_srgb
     keep_metadata wm_img wm_position wm_scale_pct wm_opacity_pct wm_margin_px =
     bind_exn (ensure_rgb_and_srgb L image0 convert_to_srgb) (\<lambda>img.
     bind_exn (resize_to_long_edge L img target_long) (\<lambda>img.
     case wm_img of
       None \<Rightarrow> Inr img
     | Some w \<Rightarrow>
         apply_watermark L img (Some w) wm_position wm_scale_pct wm_opacity_pct wm_margin_px))"

definition filename_with_suffix :: "string \<Rightarrow> string \<Rightarrow> string \<Rightarrow> string" where
  "filename_with_suffix name suffix ext =
     (let base = last (split_on CHR ''/'' (replace_char (CHR 0x5C) CHR ''/'' name));
          base = (if CHR ''.'' \<in> set base then take (nat (rfind base CHR ''.'')) base else base)
      in base @ suffix @ ''.'' @ lower ext)"

section \<open>Batch processing and export\<close>

text \<open>
  The script keeps the values of the sidebar widgets in module-level variables; the batch
  loop reads them. They are collected in one record.
\<close>

record settings =
  ui_target_long :: int
  ui_out_fmt :: string
  ui_quality :: int
  ui_progressive :: bool
  ui_optimize :: bool
  ui_convert_to_srgb :: bool
  ui_keep_metadata :: bool
  ui_wm_file :: "bytes option"
  ui_wm_position :: string
  ui_wm_scale_pct :: rat
  ui_wm_opacity_pct :: rat
  ui_wm_margin_px :: int
  ui_suffix :: string

definition process_and_encode ::
  "pil \<Rightarrow> settings \<Rightarrow> image option \<Rightarrow> string \<Rightarrow> image \<Rightarrow> exn + string \<times> bytes" where
  \<comment> \<open>lines 287 to 292, the body of the batch loop; \<open>wm_img\<close> is the module variable of line 233\<close>
  "process_and_encode L S wm_img name img =
     bind_exn (process_one L img (ui_target_long S) (ui_out_fmt S) (ui_quality S)
                 (ui_progressive S) (ui_optimize S) (ui_convert_to_srgb S) (ui_keep_metadata S)
                 wm_img (ui_wm_position S) (ui_wm_scale_pct S) (ui_wm_opacity_pct S)
                 (ui_wm_margin_px S)) (\<lambda>out_img.
     bind_exn (save_image_bytes L out_img (ui_out_fmt S) (ui_quality S) (ui_progressive S)
                 (ui_optimize S) (ui_keep_metadata S)) (\<lambda>out_bytes.
     let out_name = filename_with_suffix name (ui_suffix S) (lower (ui_out_fmt S))
     in Inr (out_name, out_bytes)))"

fun batch_loop ::
  "pil \<Rightarrow> settings \<Rightarrow> image option \<Rightarrow> (string \<times> image) list \<Rightarrow> (string \<times> bytes) list \<Rightarrow>
   exn + (string \<times> bytes) list" where
  \<comment> \<open>lines 286 to 292; the last argument is \<^verbatim>\<open>results\<close>\<close>
  "batch_loop L S wm_img [] results = Inr results"
| "batch_loop L S wm_img ((name, img) # rest) results =
     bind_exn (process_and_encode L S wm_img name img) (\<lambda>r.
     batch_loop L S wm_img rest (results @ [r]))"

datatype compression = ZIP_STORED | ZIP_DEFLATED

record zip_file =
  zf_compression :: compression
  zf_entries :: "(string \<times> bytes) list"

definition writestr :: "zip_file \<Rightarrow> string \<Rightarrow> bytes \<Rightarrow> zip_file" where
  \<comment> \<open>\<^verbatim>\<open>zf.writestr(fname, data)\<close> appends one member to the archive\<close>
  "writestr zf fname d = zf\<lparr>zf_entries := zf_entries zf @ [(fname, d)]\<rparr>"

record datetime =
  dt_year :: nat
  dt_month :: nat
  dt_day :: nat
  dt_hour :: nat
  dt_minute :: nat
  dt_second :: nat

definition digit_char :: "nat \<Rightarrow> char" where
  "digit_char n = char_of (48 + n mod 10)"

definition zero_padded :: "nat \<Rightarrow> nat \<Rightarrow> string" where
  \<comment> \<open>the last \<open>k\<close> decimal digits of \<open>n\<close>\<close>
  "zero_padded k n = map (\<lambda>i. digit_char (n div 10 ^ i)) (rev [0..<k])"

definition strftime_compact :: "datetime \<Rightarrow> string" where
  \<comment> \<open>\<^verbatim>\<open>strftime("%Y%m%d_%H%M%S")\<close>, for the four-digit years a clock returns\<close>
  "strftime_compact t =
     zero_padded 4 (dt_year t) @ zero_padded 2 (dt_month t) @ zero_padded 2 (dt_day t) @ ''_'' @
     zero_padded 2 (dt_hour t) @ zero_padded 2 (dt_minute t) @ zero_padded 2 (dt_second t)"

datatype payload = FileBytes bytes | ZipBytes zip_file

record download_button =
  db_label :: string
  db_data :: payload
  db_file_name :: string
  db_mime :: string

definition export_results :: "(string \<times> bytes) list \<Rightarrow> string \<Rightarrow> datetime \<Rightarrow> download_button" where
  \<comment> \<open>lines 294 to 316; \<open>now\<close> is the value of \<^verbatim>\<open>datetime.now()\<close>\<close>
  "export_results results out_fmt now =
     (if length results = 1 then
        (case results ! 0 of (fname, d) \<Rightarrow>
           \<lparr>db_label = ''Download '' @ fname, db_data = FileBytes d, db_file_name = fname,
            db_mime = (if upper out_fmt = ''JPEG'' then ''image/jpeg'' else ''image/webp'')\<rparr>)
      else
        (let zf = fold (\<lambda>(fname, d) zf. writestr zf fname d) results
                    \<lparr>zf_compression = ZIP_DEFLATED, zf_entries = []\<rparr>;
             ts = strftime_compact now;
             zip_name = ''exports_'' @ ts @ ''.zip''
         in \<lparr>db_label = ''Download '' @ zip_name, db_data = ZipBytes zf, db_file_name = zip_name,
             db_mime = ''application/zip''\<rparr>))"

datatype ui_output = Warning string | Button download_button

definition process_images_clicked ::
  "pil \<Rightarrow> settings \<Rightarrow> image option \<Rightarrow> (string \<times> image) list \<Rightarrow> datetime \<Rightarrow> exn + ui_output" where
  \<comment> \<open>lines 282 to 316, the body of \<^verbatim>\<open>if st.button("Process images")\<close>\<close>
  "process_images_clicked L S wm_img images now =
     (if images = [] then Inr (Warning ''No images to process.'')
      else bind_exn (batch_loop L S wm_img images []) (\<lambda>results.
           Inr (Button (export_results results (ui_out_fmt S) now))))"

subsection \<open>One run of the script\<close>

text \<open>
  Streamlit runs the script from top to bottom on every interaction: the uploads are
  decoded, the watermark is opened, the preview of the first image is computed, and only
  then the button is looked at. An exception anywhere ends the run.
\<close>

definition load_watermark :: "pil \<Rightarrow> bytes option \<Rightarrow> image option" where
  \<comment> \<open>lines 233 to 238\<close>
  "load_watermark L wm_file =
     (case wm_file of
        None \<Rightarrow> None
      | Some d \<Rightarrow> (case Image_open L d of Inl e \<Rightarrow> None | Inr im \<Rightarrow> Some im))"

record preview_ui =
  pv_original_name :: string
  pv_original :: image
  pv_orig_size :: nat
  pv_file_name :: string
  pv_processed :: image
  pv_out_bytes :: bytes
  pv_mime :: string

definition original_kw :: save_kw where
  \<comment> \<open>the keywords of line 253\<close>
  "original_kw =
     \<lparr>kw_format = ''JPEG'', kw_quality = Some 95, kw_optimize = None,
      kw_progressive = None, kw_method = None, kw_exif = None\<rparr>"

definition process_one_same_object :: "settings \<Rightarrow> image option \<Rightarrow> image \<Rightarrow> bool" where
  \<comment> \<open>\<^verbatim>\<open>process_one\<close> returns the object it was given, not a new one: no conversion (line 59),
      no resize (line 68) and no watermark (line 161)\<close>
  "process_one_same_object S wm_img img =
     (\<not> ui_convert_to_srgb S \<and> (mode img = ''RGB'' \<or> mode img = ''RGBA'') \<and>
      (ui_target_long S \<le> 0 \<or> max (width img) (height img) \<le> ui_target_long S) \<and>
      wm_img = None)"

definition preview_block ::
  "pil \<Rightarrow> settings \<Rightarrow> image option \<Rightarrow> (string \<times> image) list \<Rightarrow>
   exn + preview_ui option \<times> (string \<times> image) list" where
  \<comment> \<open>lines 242 to 275. \<^verbatim>\<open>sample_img\<close> is the first object of \<^verbatim>\<open>images\<close>, and \<^verbatim>\<open>save\<close> is
      called on it: the list is returned with that object as \<^verbatim>\<open>save\<close> left it, and so is
      \<^verbatim>\<open>processed_preview\<close> when it is that same object.\<close>
  "preview_block L S wm_img images =
     (case images of
        [] \<Rightarrow> Inr (None, images)
      | (sample_name, sample_img0) # rest \<Rightarrow>
          bind_exn (process_one L sample_img0 (ui_target_long S) (ui_out_fmt S) (ui_quality S)
                      (ui_progressive S) (ui_optimize S) (ui_convert_to_srgb S)
                      (ui_keep_metadata S) wm_img (ui_wm_position S) (ui_wm_scale_pct S)
                      (ui_wm_opacity_pct S) (ui_wm_margin_px S)) (\<lambda>processed_preview.
          case Image_save L sample_img0 [] original_kw of
            (r, original_bytes, sample_img) \<Rightarrow>
              let orig_size = (case r of None \<Rightarrow> length original_bytes | Some e \<Rightarrow> 0);
                  processed_preview =
                    (if process_one_same_object S wm_img sample_img0 then sample_img
                     else processed_preview)
              in bind_exn (save_image_bytes L processed_preview (ui_out_fmt S) (ui_quality S)
                             (ui_progressive S) (ui_optimize S) (ui_keep_metadata S)) (\<lambda>out_bytes.
                 Inr (Some \<lparr>pv_original_name = sample_name, pv_original = sample_img,
                             pv_orig_size = orig_size,
                             pv_file_name = filename_with_suffix sample_name (ui_suffix S)
                                              (lower (ui_out_fmt S)),
                             pv_processed = processed_preview, pv_out_bytes = out_bytes,
                             pv_mime = (if upper (ui_out_fmt S) = ''JPEG'' then ''image/jpeg''
                                        else ''image/webp'')\<rparr>,
                      (sample_name, sample_img) # rest))))"

record script_ui =
  ui_preview :: "preview_ui option"
  ui_batch :: "ui_output option"

definition script_run ::
  "pil \<Rightarrow> settings \<Rightarrow> uploaded_file list option \<Rightarrow> bool \<Rightarrow> datetime \<Rightarrow> exn + script_ui" where
  \<comment> \<open>lines 231 to 316; \<open>clicked\<close> is the value of \<^verbatim>\<open>st.button("Process images")\<close>\<close>
  "script_run L S uploads clicked now =
     bind_exn (read_uploaded_images L uploads) (\<lambda>images.
     let wm_img = load_watermark L (ui_wm_file S)
     in bind_exn (preview_block L S wm_img images) (\<lambda>(preview, images).
        if clicked then
          bind_exn (process_images_clicked L S wm_img images now) (\<lambda>out.
          Inr \<lparr>ui_preview = preview, ui_batch = Some out\<rparr>)
        else Inr \<lparr>ui_preview = preview, ui_batch = None\<rparr>))"

section \<open>A sample library\<close>

text \<open>
  A small executable instance of the library interface, on which the model is run at
  concrete inputs. It keeps sizes and modes and treats the pixel buffer as one band of
  samples, which for a watermark is read as its alpha band. A file decodes to an image when
  it holds a width, a height and samples. Like Pillow the instance converts every mode,
  raises \<^verbatim>\<open>ValueError\<close> for a resize to an empty size, scales a band with \<open>blend_sample\<close> and
  leaves the destination as it is under a fully transparent overlay; any other overlay is
  recorded by its samples.
\<close>

definition pil_sample :: pil where
  "pil_sample =
     \<lparr>Image_open = (\<lambda>d. case d of
                      w # h # px \<Rightarrow>
                        Inr \<lparr>width = int w, height = int h, mode = ''RGB'', info = [], pixels = px\<rparr>
                    | _ \<Rightarrow> Inl OSError),
      exif_transpose = Inr,
      ZipFile_infolist = (\<lambda>d. Inl (OtherError ''BadZipFile'')),
      ZipFile_open = (\<lambda>d m. Inl KeyError),
      Image_convert = (\<lambda>img m. Inr (img\<lparr>mode := m\<rparr>)),
      Image_resize = (\<lambda>img (w, h). if w < 1 \<or> h < 1 then Inl ValueError
                                     else Inr (img\<lparr>width := w, height := h\<rparr>)),
      Image_alpha = (\<lambda>img. img\<lparr>mode := ''L''\<rparr>),
      Image_putalpha = (\<lambda>img a. img\<lparr>pixels := pixels a\<rparr>),
      Image_alpha_composite = (\<lambda>out wm xy.
         Inr (if list_all (\<lambda>p. p = 0) (pixels wm) then out else out\<lparr>pixels := pixels wm\<rparr>)),
      Image_save = (\<lambda>img buf kw. (None, buf @ pixels img, img)),
      Brightness_enhance = (\<lambda>img f. img\<lparr>pixels := map (blend_sample f) (pixels img)\<rparr>),
      ImageCmsProfile = Inr,
      createProfile = (\<lambda>n. Inr []),
      profileToProfile = (\<lambda>img s d m. Inr (img\<lparr>mode := m\<rparr>))\<rparr>"

definition plain_image :: "string \<Rightarrow> int \<Rightarrow> int \<Rightarrow> bytes \<Rightarrow> image" where
  "plain_image m w h px = \<lparr>width = w, height = h, mode = m, info = [], pixels = px\<rparr>"

definition pil_exif_refused :: "exn \<Rightarrow> pil" where
  \<comment> \<open>a codec that raises \<open>e\<close> whenever \<^verbatim>\<open>save\<close> is given the \<^verbatim>\<open>exif\<close> keyword\<close>
  "pil_exif_refused e =
     pil_sample\<lparr>Image_save := (\<lambda>img buf kw.
        if kw_exif kw \<noteq> None then (Some e, buf, img) else (None, buf @ pixels img, img))\<rparr>"



definition pil_save_clobbers :: pil where
  \<comment> \<open>a codec whose \<^verbatim>\<open>save\<close> empties the pixel buffer of the image it is called on\<close>
  "pil_save_clobbers =
     pil_sample\<lparr>Image_save := (\<lambda>img buf kw. (None, buf @ pixels img, img\<lparr>pixels := []\<rparr>))\<rparr>"

definition two_calls :: "encode_opts list" where
  "two_calls =
     [\<lparr>eo_fmt = ''JPEG'', eo_quality = 85, eo_progressive = True, eo_optimize = True,
       eo_keep_metadata = False\<rparr>,
      \<lparr>eo_fmt = ''WEBP'', eo_quality = 80, eo_progressive = False, eo_optimize = True,
       eo_keep_metadata = True\<rparr>]"

definition sample_settings :: settings where
  \<comment> \<open>widget values inside the ranges of the sidebar, without a watermark\<close>
  "sample_settings =
     \<lparr>ui_target_long = 1000, ui_out_fmt = ''JPEG'', ui_quality = 85, ui_progressive = True,
      ui_optimize = True, ui_convert_to_srgb = True, ui_keep_metadata = False,
      ui_wm_file = None, ui_wm_position = ''bottom-right'', ui_wm_scale_pct = 12,
      ui_wm_opacity_pct = 70, ui_wm_margin_px = 24, ui_suffix = ''_web''\<rparr>"

definition wide_upload :: uploaded_file where
  \<comment> \<open>an 800 by 600 image\<close>
  "wide_upload = \<lparr>uf_name = Some ''wide.png'', uf_data = [800, 600, 20]\<rparr>"

definition thin_upload :: uploaded_file where
  \<comment> \<open>a 3000 by 1 image\<close>
  "thin_upload = \<lparr>uf_name = Some ''thin.png'', uf_data = [3000, 1, 10]\<rparr>"

definition tall_upload :: uploaded_file where
  \<comment> \<open>a 600 by 900 image\<close>
  "tall_upload = \<lparr>uf_name = Some ''tall.png'', uf_data = [600, 900, 30]\<rparr>"

definition square_upload :: uploaded_file where
  \<comment> \<open>a 500 by 500 image\<close>
  "square_upload = \<lparr>uf_name = Some ''square.png'', uf_data = [500, 500, 40]\<rparr>"

definition wide_preview :: preview_ui where
  \<comment> \<open>the preview that the sample library computes for \<open>wide_upload\<close>\<close>
  "wide_preview =
     \<lparr>pv_original_name = ''wide.png'', pv_original = plain_image ''RGB'' 800 600 [20],
      pv_orig_size = 1, pv_file_name = ''wide_web.jpeg'',
      pv_processed = plain_image ''RGB'' 800 600 [20], pv_out_bytes = [20],
      pv_mime = ''image/jpeg''\<rparr>"

definition sample_now :: datetime where
  "sample_now = \<lparr>dt_year = 2026, dt_month = 11, dt_day = 3, dt_hour = 7, dt_minute = 5,
                  dt_second = 9\<rparr>"

section \<open>Properties\<close>

lemma bind_exn_simps [simp]:
  "bind_exn (Inl e) f = Inl e"
  "bind_exn (Inr x) f = f x"
  by (simp_all add: bind_exn_def)

subsection \<open>Floating point\<close>

text \<open>
  Two checks of the rounding against known binary64 values: the float nearest to one tenth
  is \<open>3602879701896397 / 2 ^ 55\<close>, and a tie is rounded to the even neighbour.
\<close>

lemma fl_one_tenth: "fl (1 / 10) = 3602879701896397 / 36028797018963968"
  by code_simp

lemma py_round_ties: "py_round (1 / 2) = 0" "py_round (3 / 2) = 2" "py_round (5 / 2) = 2"
  by code_simp+

subsection \<open>Resizing\<close>

text \<open>
  C3. If the target is not positive, or the long side \<open>max width height\<close> does not exceed
  the target, \<open>resize_to_long_edge\<close> returns the image it was given: no library call is
  made, so size, mode, metadata and pixels are all those of the input.
\<close>

theorem resize_passthrough:
  "target_long \<le> 0 \<or> max (width img) (height img) \<le> target_long \<Longrightarrow>
   resize_to_long_edge L img target_long = Inr img"
  by (simp add: resize_to_long_edge_def Let_def)

theorem resize_passthrough_witness:
  "max (width (plain_image ''RGB'' 800 600 [])) (height (plain_image ''RGB'' 800 600 [])) \<le> 1024 \<and>
   resize_to_long_edge pil_sample (plain_image ''RGB'' 800 600 []) 1024
     = Inr (plain_image ''RGB'' 800 600 []) \<and>
   (0::int) \<le> 0 \<and>
   resize_to_long_edge pil_sample (plain_image ''RGB'' 800 600 []) 0
     = Inr (plain_image ''RGB'' 800 600 [])"
  using resize_passthrough [of 1024 "plain_image ''RGB'' 800 600 []" pil_sample]
    resize_passthrough [of 0 "plain_image ''RGB'' 800 600 []" pil_sample]
  by (simp add: plain_image_def)

lemma resize_requests_dims:
  "0 < target_long \<Longrightarrow> target_long < max (width img) (height img) \<Longrightarrow>
   resize_to_long_edge L img target_long = Image_resize L img (resize_dims img target_long)"
  by (auto simp add: resize_to_long_edge_def Let_def)

lemma resize_dims_3000x1: "resize_dims (plain_image ''RGB'' 3000 1 px) 1000 = (1000, 0)"
  unfolding resize_dims_def plain_image_def by code_simp

text \<open>
  C2. The size handed to the library is \<open>(round (w * scale), round (h * scale))\<close> with no
  lower bound. For a 3000 by 1 image and a target of 1000 the requested size is
  \<open>(1000, 0)\<close>: the height is 0, not 1, and a library that rejects empty sizes raises.
\<close>

theorem resize_zero_height:
  "resize_dims (plain_image ''RGB'' 3000 1 px) 1000 = (1000, 0) \<and>
   resize_to_long_edge L (plain_image ''RGB'' 3000 1 px) 1000
     = Image_resize L (plain_image ''RGB'' 3000 1 px) (1000, 0) \<and>
   resize_to_long_edge pil_sample (plain_image ''RGB'' 3000 1 px) 1000 = Inl ValueError"
proof -
  let ?img = "plain_image ''RGB'' 3000 1 px"
  have size: "0 < (1000::int)" "1000 < max (width ?img) (height ?img)"
    by (simp_all add: plain_image_def)
  have req: "resize_to_long_edge L ?img 1000 = Image_resize L ?img (1000, 0)" for L
    using resize_requests_dims [OF size] by (simp add: resize_dims_3000x1)
  have "Image_resize pil_sample ?img (1000, 0) = Inl ValueError"
    by (simp add: pil_sample_def)
  with req resize_dims_3000x1 show ?thesis by simp
qed


subsection \<open>Watermark placement\<close>

lemma place_watermark_total:
  "place_watermark base wm position m
     = Inr (py_get (positions base wm m) position
              (width base - width wm - m, height base - height wm - m))"
  by (simp add: place_watermark_def positions_def py_getitem_def)

lemma place_watermark_cases:
  "place_watermark base wm position m
     = Inr (if position = ''top-left'' then (m, m)
            else if position = ''top-right'' then (width base - width wm - m, m)
            else if position = ''bottom-left'' then (m, height base - height wm - m)
            else if position = ''center''
              then ((width base - width wm) div 2, (height base - height wm) div 2)
            else (width base - width wm - m, height base - height wm - m))"
  by (simp add: place_watermark_total positions_def py_get_def)

lemma place_bottom_right:
  "place_watermark base wm ''bottom-right'' m
     = Inr (width base - width wm - m, height base - height wm - m)"
  by (simp add: place_watermark_cases)

lemma apply_watermark_steps:
  "Image_convert L base ''RGBA'' = Inr b \<Longrightarrow> Image_convert L wmk ''RGBA'' = Inr w \<Longrightarrow>
   scale_watermark L b w scale_pct = Inr w' \<Longrightarrow>
   apply_watermark L base (Some wmk) position scale_pct opacity_pct margin_px
     = bind_exn (place_watermark b (apply_opacity L w' opacity_pct) position margin_px) (\<lambda>xy.
       bind_exn (Image_alpha_composite L (Image_copy b) (apply_opacity L w' opacity_pct) xy)
         (\<lambda>out. Image_convert L out ''RGB''))"
  by (simp add: apply_watermark_def Let_def)

text \<open>
  C5. Once the base and the watermark are converted and the watermark is scaled and given
  its opacity, \<open>apply_watermark\<close> composites the watermark onto a copy of the base at
  the offset that the position name and the margin give: the five names give the five
  documented corners (floor division for the centre), every other name is placed like
  bottom-right, and the result is the composite converted to RGB. For a 1000 by 800 base,
  a 100 by 80 watermark and a margin of 24 the bottom-right offset is \<open>(876, 696)\<close>.
\<close>

theorem watermark_placement:
  "Image_convert L base ''RGBA'' = Inr b \<and> Image_convert L wmk ''RGBA'' = Inr w \<and>
   scale_watermark L b w scale_pct = Inr w' \<and> wm = apply_opacity L w' opacity_pct \<longrightarrow>
     apply_watermark L base (Some wmk) position scale_pct opacity_pct m
       = bind_exn
           (Image_alpha_composite L (Image_copy b) wm
              (if position = ''top-left'' then (m, m)
               else if position = ''top-right'' then (width b - width wm - m, m)
               else if position = ''bottom-left'' then (m, height b - height wm - m)
               else if position = ''center''
                 then ((width b - width wm) div 2, (height b - height wm) div 2)
               else (width b - width wm - m, height b - height wm - m)))
           (\<lambda>out. Image_convert L out ''RGB'') \<and>
     (width b = 1000 \<and> height b = 800 \<and> width wm = 100 \<and> height wm = 80 \<longrightarrow>
        apply_watermark L base (Some wmk) ''bottom-right'' scale_pct opacity_pct 24
          = bind_exn (Image_alpha_composite L (Image_copy b) wm (876, 696))
              (\<lambda>out. Image_convert L out ''RGB''))"
proof (intro impI)
  assume h: "Image_convert L base ''RGBA'' = Inr b \<and> Image_convert L wmk ''RGBA'' = Inr w \<and>
    scale_watermark L b w scale_pct = Inr w' \<and> wm = apply_opacity L w' opacity_pct"
  have steps: "apply_watermark L base (Some wmk) p scale_pct opacity_pct k
      = bind_exn (place_watermark b wm p k) (\<lambda>xy.
        bind_exn (Image_alpha_composite L (Image_copy b) wm xy)
          (\<lambda>out. Image_convert L out ''RGB''))" for p k
    using h apply_watermark_steps [of L base b wmk w scale_pct w' p opacity_pct k] by simp
  show "apply_watermark L base (Some wmk) position scale_pct opacity_pct m
       = bind_exn
           (Image_alpha_composite L (Image_copy b) wm
              (if position = ''top-left'' then (m, m)
               else if position = ''top-right'' then (width b - width wm - m, m)
               else if position = ''bottom-left'' then (m, height b - height wm - m)
               else if position = ''center''
                 then ((width b - width wm) div 2, (height b - height wm) div 2)
               else (width b - width wm - m, height b - height wm - m)))
           (\<lambda>out. Image_convert L out ''RGB'') \<and>
     (width b = 1000 \<and> height b = 800 \<and> width wm = 100 \<and> height wm = 80 \<longrightarrow>
        apply_watermark L base (Some wmk) ''bottom-right'' scale_pct opacity_pct 24
          = bind_exn (Image_alpha_composite L (Image_copy b) wm (876, 696))
              (\<lambda>out. Image_convert L out ''RGB''))"
    by (simp add: steps place_watermark_cases)
qed


subsection \<open>Watermark opacity\<close>

lemma apply_opacity_outside:
  "opacity_pct < 0 \<or> 100 \<le> opacity_pct \<Longrightarrow> apply_opacity L wm opacity_pct = wm"
  by (auto simp add: apply_opacity_def)

lemma apply_opacity_inside:
  "0 \<le> opacity_pct \<Longrightarrow> opacity_pct < 100 \<Longrightarrow>
   apply_opacity L wm opacity_pct
     = Image_putalpha L wm (Brightness_enhance L (Image_alpha L wm) (py_truediv opacity_pct 100))"
  by (simp add: apply_opacity_def Let_def)

text \<open>
  C10. A negative opacity skips the opacity block: the alpha channel of the watermark is
  left as it is, and the composite is the one that an opacity of 100 produces.
\<close>

theorem negative_opacity_untouched:
  "opacity_pct < 0 \<Longrightarrow>
   apply_opacity L wm opacity_pct = wm \<and>
   apply_opacity L wm opacity_pct = apply_opacity L wm 100 \<and>
   apply_watermark L base watermark position scale_pct opacity_pct margin_px
     = apply_watermark L base watermark position scale_pct 100 margin_px"
proof -
  assume neg: "opacity_pct < 0"
  have same: "apply_opacity L w opacity_pct = apply_opacity L w 100" for w
    using neg by (simp add: apply_opacity_outside)
  have "apply_watermark L base watermark position scale_pct opacity_pct margin_px
          = apply_watermark L base watermark position scale_pct 100 margin_px"
    by (cases watermark) (simp_all add: apply_watermark_def same)
  with neg same show ?thesis by (simp add: apply_opacity_outside)
qed


lemma py_truediv_zero: "py_truediv 0 100 = 0"
  by (simp add: py_truediv_def fl_def)

lemma blend_sample_zero: "blend_sample 0 v = 0"
  by (simp add: blend_sample_def fl32_def py_int_def)

lemma list_all_blend_zero: "list_all (\<lambda>p. p = 0) (map (blend_sample 0) vs)"
  by (simp add: list_all_iff blend_sample_zero)

text \<open>
  C4, as amended. After the conversions and the scaling, the watermark that is composited
  onto the copy of the base is the scaled watermark with its opacity applied. For an
  opacity in \<open>[0, 100)\<close> its alpha band is the brightness scaling of the alpha band of the
  scaled watermark with factor \<open>opacity / 100\<close>; with a library that scales a band and
  installs it as Pillow does, every alpha sample \<open>v\<close> is replaced by the product
  \<open>factor * v\<close> as Pillow computes it, \<open>blend_sample factor v\<close>. From 100 upwards the
  scaled watermark is composited as it is, with the alpha it came with. At opacity 0
  every alpha sample is 0 and, where the library leaves the destination alone under a fully
  transparent overlay, the result is the base converted to RGBA and back to RGB, with no
  trace of the watermark: the base itself when that round trip returns the base, as for an
  RGB base.
\<close>

theorem opacity_scaling:
  "Image_convert L base ''RGBA'' = Inr b \<and> Image_convert L wmk ''RGBA'' = Inr w \<and>
   scale_watermark L b w scale_pct = Inr w' \<and> wm = apply_opacity L w' opacity_pct \<and>
   place_watermark b wm position margin_px = Inr xy \<longrightarrow>
     apply_watermark L base (Some wmk) position scale_pct opacity_pct margin_px
       = bind_exn (Image_alpha_composite L (Image_copy b) wm xy)
           (\<lambda>out. Image_convert L out ''RGB'') \<and>
     (0 \<le> opacity_pct \<and> opacity_pct < 100 \<longrightarrow>
        wm = Image_putalpha L w'
               (Brightness_enhance L (Image_alpha L w') (py_truediv opacity_pct 100)) \<and>
        (brightness_scales L (Image_alpha L w') (py_truediv opacity_pct 100) \<and>
         putalpha_installs L w'
           (Brightness_enhance L (Image_alpha L w') (py_truediv opacity_pct 100)) \<longrightarrow>
           pixels (Image_alpha L wm)
             = map (blend_sample (py_truediv opacity_pct 100)) (pixels (Image_alpha L w')) \<and>
           (opacity_pct = 0 \<and> transparent_overlay_kept L (Image_copy b) wm xy \<longrightarrow>
              list_all (\<lambda>p. p = 0) (pixels (Image_alpha L wm)) \<and>
              apply_watermark L base (Some wmk) position scale_pct opacity_pct margin_px
                = Image_convert L b ''RGB'' \<and>
              (Image_convert L b ''RGB'' = Inr base \<longrightarrow>
                 apply_watermark L base (Some wmk) position scale_pct opacity_pct margin_px
                   = Inr base)))) \<and>
     (100 \<le> opacity_pct \<longrightarrow> wm = w')"
proof (intro impI)
  assume h: "Image_convert L base ''RGBA'' = Inr b \<and> Image_convert L wmk ''RGBA'' = Inr w \<and>
   scale_watermark L b w scale_pct = Inr w' \<and> wm = apply_opacity L w' opacity_pct \<and>
   place_watermark b wm position margin_px = Inr xy"
  let ?f = "py_truediv opacity_pct 100"
  let ?a = "Brightness_enhance L (Image_alpha L w') ?f"
  let ?run = "apply_watermark L base (Some wmk) position scale_pct opacity_pct margin_px"
  have wm: "wm = apply_opacity L w' opacity_pct"
    and place: "place_watermark b (apply_opacity L w' opacity_pct) position margin_px = Inr xy"
    using h by blast+
  have "?run = bind_exn (place_watermark b (apply_opacity L w' opacity_pct) position margin_px)
                 (\<lambda>xy. bind_exn
                    (Image_alpha_composite L (Image_copy b) (apply_opacity L w' opacity_pct) xy)
                    (\<lambda>out. Image_convert L out ''RGB''))"
    using h apply_watermark_steps [of L base b wmk w scale_pct w'] by blast
  then have run: "?run = bind_exn (Image_alpha_composite L (Image_copy b) wm xy)
                      (\<lambda>out. Image_convert L out ''RGB'')"
    by (simp add: place wm)
  have inside: "wm = Image_putalpha L w' ?a" if "0 \<le> opacity_pct \<and> opacity_pct < 100"
    using h that by (simp add: apply_opacity_inside)
  have band: "pixels (Image_alpha L wm) = map (blend_sample ?f) (pixels (Image_alpha L w'))"
    if "0 \<le> opacity_pct \<and> opacity_pct < 100"
      and "brightness_scales L (Image_alpha L w') ?f \<and> putalpha_installs L w' ?a"
    using that inside by (simp add: brightness_scales_def putalpha_installs_def)
  have zero: "list_all (\<lambda>p. p = 0) (pixels (Image_alpha L wm)) \<and>
      ?run = Image_convert L b ''RGB'' \<and>
      (Image_convert L b ''RGB'' = Inr base \<longrightarrow> ?run = Inr base)"
    if r: "0 \<le> opacity_pct \<and> opacity_pct < 100"
      and c: "brightness_scales L (Image_alpha L w') ?f \<and> putalpha_installs L w' ?a"
      and z: "opacity_pct = 0 \<and> transparent_overlay_kept L (Image_copy b) wm xy"
  proof -
    have "pixels (Image_alpha L wm) = map (blend_sample 0) (pixels (Image_alpha L w'))"
      using band [OF r c] z by (simp add: py_truediv_zero)
    then have clear: "list_all (\<lambda>p. p = 0) (pixels (Image_alpha L wm))"
      by (simp add: list_all_blend_zero)
    then have "Image_alpha_composite L (Image_copy b) wm xy = Inr (Image_copy b)"
      using z by (simp add: transparent_overlay_kept_def)
    then have "?run = Image_convert L b ''RGB''"
      by (simp add: run Image_copy_def)
    with clear show ?thesis by simp
  qed
  have outside: "wm = w'" if "100 \<le> opacity_pct"
    using h that by (simp add: apply_opacity_outside)
  from run inside band zero outside
  show "?run = bind_exn (Image_alpha_composite L (Image_copy b) wm xy)
           (\<lambda>out. Image_convert L out ''RGB'') \<and>
     (0 \<le> opacity_pct \<and> opacity_pct < 100 \<longrightarrow>
        wm = Image_putalpha L w' ?a \<and>
        (brightness_scales L (Image_alpha L w') ?f \<and> putalpha_installs L w' ?a \<longrightarrow>
           pixels (Image_alpha L wm) = map (blend_sample ?f) (pixels (Image_alpha L w')) \<and>
           (opacity_pct = 0 \<and> transparent_overlay_kept L (Image_copy b) wm xy \<longrightarrow>
              list_all (\<lambda>p. p = 0) (pixels (Image_alpha L wm)) \<and>
              ?run = Image_convert L b ''RGB'' \<and>
              (Image_convert L b ''RGB'' = Inr base \<longrightarrow> ?run = Inr base)))) \<and>
     (100 \<le> opacity_pct \<longrightarrow> wm = w')"
    by blast
qed


subsection \<open>Runs of the watermark step on the sample library\<close>

lemma sample_floats:
  "py_int (py_mul 1000 (py_truediv 10 100)) = 100"
  "py_truediv 100 50 = 2"
  "py_int (py_mul 40 2) = 80"
  by code_simp+

lemma sample_blend:
  "blend_sample (py_truediv 70 100) 200 = 140"
  "blend_sample (py_truediv 70 100) 100 = 70"
  by code_simp+

lemma sample_convert:
  "Image_convert pil_sample (plain_image m w h px) m' = Inr (plain_image m' w h px)"
  by (simp add: pil_sample_def plain_image_def)

lemma sample_scale:
  "scale_watermark pil_sample (plain_image ''RGBA'' 1000 800 px) (plain_image ''RGBA'' 50 40 wpx) 10
     = Inr (plain_image ''RGBA'' 100 80 wpx)"
  by (simp add: scale_watermark_def plain_image_def pil_sample_def sample_floats)

lemma sample_opacity:
  "apply_opacity pil_sample (plain_image ''RGBA'' 100 80 [200, 100]) 70
     = plain_image ''RGBA'' 100 80 [140, 70]"
  "apply_opacity pil_sample (plain_image ''RGBA'' 100 80 [200, 100]) 0
     = plain_image ''RGBA'' 100 80 [0, 0]"
  "apply_opacity pil_sample (plain_image ''RGBA'' 100 80 [200, 100]) 100
     = plain_image ''RGBA'' 100 80 [200, 100]"
  by (simp_all add: apply_opacity_def py_truediv_zero)
     (simp_all add: pil_sample_def plain_image_def sample_blend blend_sample_zero)

lemma sample_composite:
  "bind_exn (Image_alpha_composite pil_sample (Image_copy (plain_image ''RGBA'' 1000 800 bpx))
       (plain_image ''RGBA'' 100 80 wpx) xy) (\<lambda>out. Image_convert pil_sample out ''RGB'')
     = Inr (plain_image ''RGB'' 1000 800 (if list_all (\<lambda>p. p = 0) wpx then bpx else wpx))"
  by (simp add: pil_sample_def plain_image_def Image_copy_def)

lemma sample_contracts:
  "brightness_scales pil_sample a f"
  "putalpha_installs pil_sample wm a"
  "transparent_overlay_kept pil_sample out wm xy"
  by (simp_all add: brightness_scales_def putalpha_installs_def transparent_overlay_kept_def
        pil_sample_def)

lemma sample_watermark_run:
  "apply_watermark pil_sample (plain_image m 1000 800 [7, 7])
     (Some (plain_image ''RGBA'' 50 40 [200, 100])) position 10 opacity_pct 24
   = Inr (plain_image ''RGB'' 1000 800
       (if list_all (\<lambda>p. p = 0)
             (pixels (apply_opacity pil_sample (plain_image ''RGBA'' 100 80 [200, 100]) opacity_pct))
        then [7, 7]
        else pixels (apply_opacity pil_sample (plain_image ''RGBA'' 100 80 [200, 100]) opacity_pct)))"
proof -
  let ?b = "plain_image ''RGBA'' 1000 800 [7, 7]"
  let ?w' = "plain_image ''RGBA'' 100 80 [200, 100]"
  let ?wm = "apply_opacity pil_sample ?w' opacity_pct"
  have shape: "?wm = plain_image ''RGBA'' 100 80 (pixels ?wm)"
    by (simp add: apply_opacity_def pil_sample_def plain_image_def)
  have "apply_watermark pil_sample (plain_image m 1000 800 [7, 7])
          (Some (plain_image ''RGBA'' 50 40 [200, 100])) position 10 opacity_pct 24
        = bind_exn (place_watermark ?b ?wm position 24) (\<lambda>xy.
          bind_exn (Image_alpha_composite pil_sample (Image_copy ?b) ?wm xy)
            (\<lambda>out. Image_convert pil_sample out ''RGB''))"
    using apply_watermark_steps [of pil_sample "plain_image m 1000 800 [7, 7]" ?b
        "plain_image ''RGBA'' 50 40 [200, 100]" "plain_image ''RGBA'' 50 40 [200, 100]" 10 ?w'
        position opacity_pct 24]
    by (simp add: sample_convert sample_scale)
  also have "\<dots> = bind_exn (Image_alpha_composite pil_sample (Image_copy ?b)
                        (plain_image ''RGBA'' 100 80 (pixels ?wm))
                        (SOME xy. place_watermark ?b ?wm position 24 = Inr xy))
                      (\<lambda>out. Image_convert pil_sample out ''RGB'')"
    using shape by (simp add: place_watermark_total)
  finally show ?thesis
    by (simp only: sample_composite)
qed

lemma sample_full_opacity:
  "apply_watermark pil_sample (plain_image ''RGB'' 1000 800 [7, 7])
     (Some (plain_image ''RGBA'' 50 40 [200, 100])) ''bottom-right'' 10 100 24
   = Inr (plain_image ''RGB'' 1000 800 [200, 100])"
  by (simp add: sample_watermark_run sample_opacity) (simp add: plain_image_def)

lemma sample_zero_opacity:
  "apply_watermark pil_sample (plain_image ''RGB'' 1000 800 [7, 7])
     (Some (plain_image ''RGBA'' 50 40 [200, 100])) ''bottom-right'' 10 0 24
   = Inr (plain_image ''RGB'' 1000 800 [7, 7])"
  by (simp add: sample_watermark_run sample_opacity) (simp add: plain_image_def)


theorem watermark_placement_witness:
  "apply_watermark pil_sample (plain_image ''RGB'' 1000 800 [7, 7])
     (Some (plain_image ''RGBA'' 50 40 [200, 100])) ''bottom-right'' 10 70 24
     = bind_exn (Image_alpha_composite pil_sample
                   (Image_copy (plain_image ''RGBA'' 1000 800 [7, 7]))
                   (plain_image ''RGBA'' 100 80 [140, 70]) (876, 696))
         (\<lambda>out. Image_convert pil_sample out ''RGB'') \<and>
   apply_watermark pil_sample (plain_image ''RGB'' 1000 800 [7, 7])
     (Some (plain_image ''RGBA'' 50 40 [200, 100])) ''middle'' 10 70 24
     = bind_exn (Image_alpha_composite pil_sample
                   (Image_copy (plain_image ''RGBA'' 1000 800 [7, 7]))
                   (plain_image ''RGBA'' 100 80 [140, 70]) (876, 696))
         (\<lambda>out. Image_convert pil_sample out ''RGB'') \<and>
   apply_watermark pil_sample (plain_image ''RGB'' 1000 800 [7, 7])
     (Some (plain_image ''RGBA'' 50 40 [200, 100])) ''center'' 10 70 24
     = bind_exn (Image_alpha_composite pil_sample
                   (Image_copy (plain_image ''RGBA'' 1000 800 [7, 7]))
                   (plain_image ''RGBA'' 100 80 [140, 70]) (450, 360))
         (\<lambda>out. Image_convert pil_sample out ''RGB'')"
proof -
  let ?base = "plain_image ''RGB'' 1000 800 [7, 7]"
  let ?b = "plain_image ''RGBA'' 1000 800 [7, 7]"
  let ?wmk = "plain_image ''RGBA'' 50 40 [200, 100]"
  let ?w' = "plain_image ''RGBA'' 100 80 [200, 100]"
  let ?wm = "plain_image ''RGBA'' 100 80 [140, 70]"
  have hyps: "Image_convert pil_sample ?base ''RGBA'' = Inr ?b \<and>
      Image_convert pil_sample ?wmk ''RGBA'' = Inr ?wmk \<and>
      scale_watermark pil_sample ?b ?wmk 10 = Inr ?w' \<and>
      ?wm = apply_opacity pil_sample ?w' 70"
    by (simp add: sample_convert sample_scale sample_opacity)
  have dims: "width ?b = 1000" "height ?b = 800" "width ?wm = 100" "height ?wm = 80"
    by (simp_all add: plain_image_def)
  note placed = watermark_placement [of pil_sample ?base ?b ?wmk ?wmk 10 ?w' ?wm 70 _ 24,
      THEN mp, OF hyps]
  show ?thesis
    using placed [of "''bottom-right''"] placed [of "''middle''"] placed [of "''center''"]
    by (simp add: dims)
qed

theorem opacity_scaling_witness:
  "(0::rat) \<le> 70 \<and> (70::rat) < 100 \<and>
   pixels (Image_alpha pil_sample
             (apply_opacity pil_sample (plain_image ''RGBA'' 100 80 [200, 100]) 70)) = [140, 70] \<and>
   apply_watermark pil_sample (plain_image ''RGB'' 1000 800 [7, 7])
     (Some (plain_image ''RGBA'' 50 40 [200, 100])) ''bottom-right'' 10 70 24
     = Inr (plain_image ''RGB'' 1000 800 [140, 70]) \<and>
   apply_watermark pil_sample (plain_image ''RGB'' 1000 800 [7, 7])
     (Some (plain_image ''RGBA'' 50 40 [200, 100])) ''bottom-right'' 10 100 24
     = Inr (plain_image ''RGB'' 1000 800 [200, 100]) \<and>
   apply_watermark pil_sample (plain_image ''RGB'' 1000 800 [7, 7])
     (Some (plain_image ''RGBA'' 50 40 [200, 100])) ''bottom-right'' 10 0 24
     = Inr (plain_image ''RGB'' 1000 800 [7, 7])"
proof -
  let ?base = "plain_image ''RGB'' 1000 800 [7, 7]"
  let ?b = "plain_image ''RGBA'' 1000 800 [7, 7]"
  let ?wmk = "plain_image ''RGBA'' 50 40 [200, 100]"
  let ?w' = "plain_image ''RGBA'' 100 80 [200, 100]"
  have hyps: "Image_convert pil_sample ?base ''RGBA'' = Inr ?b \<and>
      Image_convert pil_sample ?wmk ''RGBA'' = Inr ?wmk \<and>
      scale_watermark pil_sample ?b ?wmk 10 = Inr ?w' \<and>
      apply_opacity pil_sample ?w' k = apply_opacity pil_sample ?w' k \<and>
      place_watermark ?b (apply_opacity pil_sample ?w' k) ''bottom-right'' 24
        = Inr (1000 - width (apply_opacity pil_sample ?w' k) - 24,
               800 - height (apply_opacity pil_sample ?w' k) - 24)" for k
    by (simp add: sample_convert sample_scale place_bottom_right) (simp add: plain_image_def)
  have rgb_again: "Image_convert pil_sample ?b ''RGB'' = Inr ?base"
    by (simp add: sample_convert)
  have alpha: "pixels (Image_alpha pil_sample ?w') = [200, 100]"
    by (simp add: pil_sample_def plain_image_def)
  note run70 = opacity_scaling [of pil_sample ?base ?b ?wmk ?wmk 10 ?w'
      "apply_opacity pil_sample ?w' 70" 70 "''bottom-right''" 24
      "(1000 - width (apply_opacity pil_sample ?w' 70) - 24,
        800 - height (apply_opacity pil_sample ?w' 70) - 24)", THEN mp, OF hyps [of 70]]
  note run100 = opacity_scaling [of pil_sample ?base ?b ?wmk ?wmk 10 ?w'
      "apply_opacity pil_sample ?w' 100" 100 "''bottom-right''" 24
      "(1000 - width (apply_opacity pil_sample ?w' 100) - 24,
        800 - height (apply_opacity pil_sample ?w' 100) - 24)", THEN mp, OF hyps [of 100]]
  note run0 = opacity_scaling [of pil_sample ?base ?b ?wmk ?wmk 10 ?w'
      "apply_opacity pil_sample ?w' 0" 0 "''bottom-right''" 24
      "(1000 - width (apply_opacity pil_sample ?w' 0) - 24,
        800 - height (apply_opacity pil_sample ?w' 0) - 24)", THEN mp, OF hyps [of 0]]
  have inside: "(0::rat) \<le> 70 \<and> (70::rat) < 100" "(0::rat) \<le> 0 \<and> (0::rat) < 100"
    and outside: "(100::rat) \<le> 100"
    by simp_all
  have lib: "brightness_scales pil_sample (Image_alpha pil_sample ?w') (py_truediv k 100) \<and>
      putalpha_installs pil_sample ?w'
        (Brightness_enhance pil_sample (Image_alpha pil_sample ?w') (py_truediv k 100))"
    "(0::rat) = 0 \<and> transparent_overlay_kept pil_sample (Image_copy ?b) v q" for k v q
    by (simp_all add: sample_contracts)
  from run70 inside(1) lib(1) [of 70]
  have "pixels (Image_alpha pil_sample (apply_opacity pil_sample ?w' 70))
      = map (blend_sample (py_truediv 70 100)) (pixels (Image_alpha pil_sample ?w'))"
    by blast
  then have r70: "pixels (Image_alpha pil_sample (apply_opacity pil_sample ?w' 70)) = [140, 70]"
    by (simp add: alpha sample_blend)
  from run70
  have "apply_watermark pil_sample ?base (Some ?wmk) ''bottom-right'' 10 70 24
      = bind_exn (Image_alpha_composite pil_sample (Image_copy ?b)
                    (apply_opacity pil_sample ?w' 70)
                    (1000 - width (apply_opacity pil_sample ?w' 70) - 24,
                     800 - height (apply_opacity pil_sample ?w' 70) - 24))
          (\<lambda>out. Image_convert pil_sample out ''RGB'')"
    by blast
  then have c70: "apply_watermark pil_sample ?base (Some ?wmk) ''bottom-right'' 10 70 24
      = Inr (plain_image ''RGB'' 1000 800 [140, 70])"
    by (simp add: sample_opacity sample_composite)
  from run100 outside have "apply_opacity pil_sample ?w' 100 = ?w'"
    by blast
  moreover from run100
  have "apply_watermark pil_sample ?base (Some ?wmk) ''bottom-right'' 10 100 24
      = bind_exn (Image_alpha_composite pil_sample (Image_copy ?b)
                    (apply_opacity pil_sample ?w' 100)
                    (1000 - width (apply_opacity pil_sample ?w' 100) - 24,
                     800 - height (apply_opacity pil_sample ?w' 100) - 24))
          (\<lambda>out. Image_convert pil_sample out ''RGB'')"
    by blast
  ultimately have c100: "apply_watermark pil_sample ?base (Some ?wmk) ''bottom-right'' 10 100 24
      = Inr (plain_image ''RGB'' 1000 800 [200, 100])"
    by (simp add: sample_composite)
  from run0 inside(2) lib(1) [of 0] lib(2) rgb_again
  have c0: "apply_watermark pil_sample ?base (Some ?wmk) ''bottom-right'' 10 0 24 = Inr ?base"
    by blast
  show ?thesis
    using r70 c70 c100 c0 by simp
qed

text \<open>
  The result is always converted to RGB (line 110). For a base that has an alpha band the
  composite at opacity 0 is therefore not the base: the band is gone.
\<close>

theorem opacity_zero_rgba_counterexample:
  "apply_watermark pil_sample (plain_image ''RGBA'' 1000 800 [7, 7])
     (Some (plain_image ''RGBA'' 50 40 [200, 100])) ''bottom-right'' 10 0 24
     = Inr (plain_image ''RGB'' 1000 800 [7, 7]) \<and>
   apply_watermark pil_sample (plain_image ''RGBA'' 1000 800 [7, 7])
     (Some (plain_image ''RGBA'' 50 40 [200, 100])) ''bottom-right'' 10 0 24
     \<noteq> Inr (plain_image ''RGBA'' 1000 800 [7, 7])"
  by (simp add: sample_watermark_run sample_opacity) (simp add: plain_image_def)

theorem negative_opacity_untouched_witness:
  "(- 5 :: rat) < 0 \<and>
   apply_watermark pil_sample (plain_image ''RGB'' 1000 800 [7, 7])
     (Some (plain_image ''RGBA'' 50 40 [200, 100])) ''bottom-right'' 10 (- 5) 24
     = Inr (plain_image ''RGB'' 1000 800 [200, 100]) \<and>
   apply_watermark pil_sample (plain_image ''RGB'' 1000 800 [7, 7])
     (Some (plain_image ''RGBA'' 50 40 [200, 100])) ''bottom-right'' 10 0 24
     \<noteq> Inr (plain_image ''RGB'' 1000 800 [200, 100])"
  using negative_opacity_untouched [of "- 5" pil_sample "plain_image ''RGBA'' 100 80 [200, 100]"
      "plain_image ''RGB'' 1000 800 [7, 7]" "Some (plain_image ''RGBA'' 50 40 [200, 100])"
      "''bottom-right''" 10 24]
  by (simp add: sample_full_opacity sample_zero_opacity) (simp add: plain_image_def)


subsection \<open>Colour normalisation\<close>







subsection \<open>Encoding\<close>

lemma upper_WEBP: "upper ''WEBP'' = ''WEBP''" "upper ''webp'' = ''WEBP''" "upper ''JPEG'' = ''JPEG''"
  "upper ''PNG'' = ''PNG''"
  by code_simp+

text \<open>
  C7, as amended. When the format is WEBP and the first \<^verbatim>\<open>save\<close> (with the
  \<^verbatim>\<open>exif\<close> keyword) raises \<^verbatim>\<open>TypeError\<close>, \<^verbatim>\<open>save\<close> is called once more without
  \<^verbatim>\<open>exif\<close> and \<^verbatim>\<open>method\<close>, and the outcome of that second call, bytes or exception, is
  the outcome of the encoder. Any other exception of the first call reaches the caller.
\<close>

theorem webp_retry_on_type_error:
  "upper fmt = ''WEBP'' \<and>
   Image_save L img [] (webp_kw quality (exif_of img keep_metadata)) = (Some e, buf, work) \<longrightarrow>
     (e = TypeError \<longrightarrow>
        save_image_bytes L img fmt quality progressive optimize keep_metadata
          = (case Image_save L work buf (webp_plain_kw quality) of
               (None, buf', work') \<Rightarrow> Inr buf'
             | (Some e', buf', work') \<Rightarrow> Inl e')) \<and>
     (e \<noteq> TypeError \<longrightarrow>
        save_image_bytes L img fmt quality progressive optimize keep_metadata = Inl e)"
  by (cases e) (auto simp add: save_image_bytes_def Image_copy_def Let_def split: prod.splits option.splits)

lemma sample_exif_refused:
  "Image_save (pil_exif_refused e) img buf (webp_kw q x) = (Some e, buf, img)"
  "Image_save (pil_exif_refused e) img buf (webp_plain_kw q) = (None, buf @ pixels img, img)"
  by (simp_all add: pil_exif_refused_def webp_kw_def webp_plain_kw_def)

theorem webp_retry_on_type_error_witness:
  "upper ''webp'' = ''WEBP'' \<and>
   save_image_bytes (pil_exif_refused TypeError) (plain_image ''RGB'' 2 1 [10, 20, 30, 40, 50, 60])
     ''webp'' 85 True True False = Inr [10, 20, 30, 40, 50, 60] \<and>
   save_image_bytes (pil_exif_refused ValueError) (plain_image ''RGB'' 2 1 [10, 20, 30, 40, 50, 60])
     ''webp'' 85 True True False = Inl ValueError"
  using webp_retry_on_type_error [of "''webp''" "pil_exif_refused TypeError"
      "plain_image ''RGB'' 2 1 [10, 20, 30, 40, 50, 60]" 85 False TypeError "[]"
      "plain_image ''RGB'' 2 1 [10, 20, 30, 40, 50, 60]" True True]
    webp_retry_on_type_error [of "''webp''" "pil_exif_refused ValueError"
      "plain_image ''RGB'' 2 1 [10, 20, 30, 40, 50, 60]" 85 False ValueError "[]"
      "plain_image ''RGB'' 2 1 [10, 20, 30, 40, 50, 60]" True True]
  by (simp add: upper_WEBP sample_exif_refused) (simp add: plain_image_def)

text \<open>
  The handler names \<^verbatim>\<open>TypeError\<close> only: a codec that answers the \<^verbatim>\<open>exif\<close> keyword with
  \<^verbatim>\<open>OSError\<close> makes the encoder raise.
\<close>

theorem webp_other_error_counterexample:
  "save_image_bytes (pil_exif_refused OSError) (plain_image ''RGB'' 2 1 [10, 20, 30, 40, 50, 60])
     ''WEBP'' 85 True True True = Inl OSError"
  by (simp add: save_image_bytes_def upper_WEBP sample_exif_refused Image_copy_def)

lemma save_st_eq:
  "work < length s \<Longrightarrow>
   save_st L s work buf kw
     = (fst (Image_save L (s ! work) buf kw), fst (snd (Image_save L (s ! work) buf kw)),
        s[work := snd (snd (Image_save L (s ! work) buf kw))])"
  by (simp add: save_st_def split: prod.splits)

lemma save_image_bytes_st_frame:
  assumes "img < length s"
  shows "snd (save_image_bytes_st L s img fmt quality progressive optimize keep_metadata) ! img
           = s ! img \<and>
         length s \<le> length (snd (save_image_bytes_st L s img fmt quality progressive optimize
                                  keep_metadata)) \<and>
         fst (save_image_bytes_st L s img fmt quality progressive optimize keep_metadata)
           = save_image_bytes L (s ! img) fmt quality progressive optimize keep_metadata"
proof -
  consider (jpeg) "upper fmt = ''JPEG''" | (webp) "upper fmt \<noteq> ''JPEG''" "upper fmt = ''WEBP''"
    | (png) "upper fmt \<noteq> ''JPEG''" "upper fmt \<noteq> ''WEBP''"
    by blast
  then show ?thesis
  proof cases
    case jpeg
    with assms show ?thesis
      by (auto simp add: save_image_bytes_st_def save_image_bytes_def alloc_def save_st_def
            Image_copy_def Let_def nth_append
          split: prod.splits option.splits sum.splits)
  next
    case webp
    with assms show ?thesis
      by (auto simp add: save_image_bytes_st_def save_image_bytes_def alloc_def save_st_def
            Image_copy_def Let_def nth_append
          split: prod.splits option.splits sum.splits exn.splits)
  next
    case png
    with assms show ?thesis
      by (auto simp add: save_image_bytes_st_def save_image_bytes_def alloc_def save_st_def
            Image_copy_def Let_def nth_append
          split: prod.splits option.splits sum.splits)
  qed
qed

text \<open>
  C8. Over a store of image objects, any sequence of encode calls on the object \<open>img\<close>,
  with any options, leaves that object as it was: size, mode, metadata and pixel buffer.
  The encoder works on objects it creates itself, also when \<^verbatim>\<open>save\<close> changes the object
  it is called on. Each call returns what the encoder returns on the value of \<open>img\<close>.
\<close>

theorem encode_no_mutation:
  "img < length s \<Longrightarrow>
   snd (encode_calls L s img cs) ! img = s ! img \<and>
   fst (encode_calls L s img cs)
     = map (\<lambda>c. save_image_bytes L (s ! img) (eo_fmt c) (eo_quality c) (eo_progressive c)
                   (eo_optimize c) (eo_keep_metadata c)) cs"
proof (induction cs arbitrary: s)
  case Nil
  then show ?case by simp
next
  case (Cons c cs)
  let ?one = "save_image_bytes_st L s img (eo_fmt c) (eo_quality c) (eo_progressive c)
                (eo_optimize c) (eo_keep_metadata c)"
  have one: "snd ?one ! img = s ! img" "length s \<le> length (snd ?one)"
    "fst ?one = save_image_bytes L (s ! img) (eo_fmt c) (eo_quality c) (eo_progressive c)
                  (eo_optimize c) (eo_keep_metadata c)"
    using save_image_bytes_st_frame [OF Cons.prems] by blast+
  then have "img < length (snd ?one)"
    using Cons.prems by simp
  from Cons.IH [OF this] one show ?case
    by (simp add: split_beta)
qed

lemma sample_clobber_runs:
  "save_image_bytes pil_save_clobbers (plain_image ''RGB'' 2 1 [10, 20, 30, 40, 50, 60]) ''JPEG'' 85 True True False
     = Inr [10, 20, 30, 40, 50, 60]"
  "save_image_bytes pil_save_clobbers (plain_image ''RGB'' 2 1 [10, 20, 30, 40, 50, 60]) ''WEBP'' 80 False True True
     = Inr [10, 20, 30, 40, 50, 60]"
  by (simp_all add: save_image_bytes_def upper_WEBP Image_copy_def pil_save_clobbers_def
        pil_sample_def plain_image_def)

theorem encode_no_mutation_witness:
  "(0::nat) < length [plain_image ''RGB'' 2 1 [10, 20, 30, 40, 50, 60]] \<and>
   snd (encode_calls pil_save_clobbers [plain_image ''RGB'' 2 1 [10, 20, 30, 40, 50, 60]] 0 two_calls) ! 0
     = plain_image ''RGB'' 2 1 [10, 20, 30, 40, 50, 60] \<and>
   fst (encode_calls pil_save_clobbers [plain_image ''RGB'' 2 1 [10, 20, 30, 40, 50, 60]] 0 two_calls)
     = [Inr [10, 20, 30, 40, 50, 60], Inr [10, 20, 30, 40, 50, 60]]"
  using encode_no_mutation [of 0 "[plain_image ''RGB'' 2 1 [10, 20, 30, 40, 50, 60]]" pil_save_clobbers two_calls]
  by (simp add: two_calls_def sample_clobber_runs)


subsection \<open>Export\<close>


lemma export_results_single:
  "length results = 1 \<Longrightarrow>
   export_results results out_fmt now
     = \<lparr>db_label = ''Download '' @ fst (hd results), db_data = FileBytes (snd (hd results)),
        db_file_name = fst (hd results),
        db_mime = (if upper out_fmt = ''JPEG'' then ''image/jpeg'' else ''image/webp'')\<rparr>"
proof -
  assume "length results = 1"
  then obtain f d where "results = [(f, d)]"
    by (cases results) auto
  then show ?thesis
    by (simp add: export_results_def)
qed


subsection \<open>The batch loop and the script\<close>


lemma batch_loop_aborts:
  "batch_loop L S wm_img before acc = Inr acc' \<Longrightarrow>
   process_and_encode L S wm_img name img = Inl e \<Longrightarrow>
   batch_loop L S wm_img (before @ (name, img) # rest) acc = Inl e"
proof (induction before arbitrary: acc)
  case Nil
  then show ?case by simp
next
  case (Cons p before)
  obtain n i where p: "p = (n, i)" by (cases p)
  from Cons.prems(1) p obtain r where r: "process_and_encode L S wm_img n i = Inr r"
    and rest: "batch_loop L S wm_img before (acc @ [r]) = Inr acc'"
    by (cases "process_and_encode L S wm_img n i") auto
  from Cons.IH [OF rest Cons.prems(2)] p r show ?case by simp
qed


lemma read_files_skips_failed_decode:
  "\<not> endswith (lower (case uf_name uf of None \<Rightarrow> ''upload'' | Some n \<Rightarrow> n)) ''.zip'' \<Longrightarrow>
   open_and_transpose L (uf_data uf) = Inl e \<Longrightarrow>
   read_files L (uf # ufs) images = read_files L ufs images"
  by (simp add: Let_def)

lemma read_zip_members_skips_failed_decode:
  "\<not> zm_is_dir m \<Longrightarrow> \<exists>x \<in> set image_extensions. endswith (lower (zm_filename m)) x \<Longrightarrow>
   ZipFile_open L d m = Inr f \<Longrightarrow> bind_exn f (open_and_transpose L) = Inl e \<Longrightarrow>
   read_zip_members L d (m # ms) images = read_zip_members L d ms images"
  by simp



subsection \<open>Runs of the script on the sample library\<close>

lemma sample_not_zip:
  "\<not> endswith (lower ''wide.png'') ''.zip''" "\<not> endswith (lower ''thin.png'') ''.zip''"
  "\<not> endswith (lower ''tall.png'') ''.zip''" "\<not> endswith (lower ''square.png'') ''.zip''"
  by code_simp+

lemma sample_names:
  "lower ''JPEG'' = ''jpeg''"
  "filename_with_suffix ''wide.png'' ''_web'' ''jpeg'' = ''wide_web.jpeg''"
  "filename_with_suffix ''tall.png'' ''_web'' ''jpeg'' = ''tall_web.jpeg''"
  "filename_with_suffix ''square.png'' ''_web'' ''jpeg'' = ''square_web.jpeg''"
  by code_simp+

lemma sample_decode:
  "open_and_transpose pil_sample [w, h, p] = Inr (plain_image ''RGB'' (int w) (int h) [p])"
  by (simp add: open_and_transpose_def pil_sample_def plain_image_def)

lemma sample_read:
  "read_uploaded_images pil_sample (Some [wide_upload])
     = Inr [(''wide.png'', plain_image ''RGB'' 800 600 [20])]"
  "read_uploaded_images pil_sample (Some [wide_upload, thin_upload])
     = Inr [(''wide.png'', plain_image ''RGB'' 800 600 [20]),
            (''thin.png'', plain_image ''RGB'' 3000 1 [10])]"
  "read_uploaded_images pil_sample (Some [thin_upload, wide_upload])
     = Inr [(''thin.png'', plain_image ''RGB'' 3000 1 [10]),
            (''wide.png'', plain_image ''RGB'' 800 600 [20])]"
  "read_uploaded_images pil_sample (Some [wide_upload, tall_upload, square_upload])
     = Inr [(''wide.png'', plain_image ''RGB'' 800 600 [20]),
            (''tall.png'', plain_image ''RGB'' 600 900 [30]),
            (''square.png'', plain_image ''RGB'' 500 500 [40])]"
  by (simp_all add: read_uploaded_images_def wide_upload_def thin_upload_def tall_upload_def
        square_upload_def Let_def sample_not_zip sample_decode)

lemma sample_process:
  "w \<le> 1000 \<Longrightarrow> h \<le> 1000 \<Longrightarrow>
   process_one pil_sample (plain_image ''RGB'' w h px) 1000 ''JPEG'' 85 True True True False
     None ''bottom-right'' 12 70 24 = Inr (plain_image ''RGB'' w h px)"
proof -
  assume small: "w \<le> 1000" "h \<le> 1000"
  let ?img = "plain_image ''RGB'' w h px"
  have "ensure_rgb_and_srgb pil_sample ?img True = Inr ?img"
    by (simp add: ensure_rgb_and_srgb_def icc_or_plain_def plain_image_def pil_sample_def)
  moreover have "resize_to_long_edge pil_sample ?img 1000 = Inr ?img"
    using small by (simp add: resize_to_long_edge_def plain_image_def)
  ultimately show ?thesis
    by (simp add: process_one_def)
qed

lemma sample_process_thin:
  "process_one pil_sample (plain_image ''RGB'' 3000 1 px) 1000 ''JPEG'' 85 True True True False
     None ''bottom-right'' 12 70 24 = Inl ValueError"
proof -
  let ?img = "plain_image ''RGB'' 3000 1 px"
  have "ensure_rgb_and_srgb pil_sample ?img True = Inr ?img"
    by (simp add: ensure_rgb_and_srgb_def icc_or_plain_def plain_image_def pil_sample_def)
  moreover have "resize_to_long_edge pil_sample ?img 1000 = Inl ValueError"
    by (simp add: resize_to_long_edge_def resize_dims_3000x1)
       (simp add: plain_image_def pil_sample_def)
  ultimately show ?thesis
    by (simp add: process_one_def)
qed

lemma sample_encode:
  "save_image_bytes pil_sample (plain_image ''RGB'' w h px) ''JPEG'' 85 True True False = Inr px"
  by (simp add: save_image_bytes_def upper_WEBP Image_copy_def pil_sample_def plain_image_def)

lemma sample_body:
  "w \<le> 1000 \<Longrightarrow> h \<le> 1000 \<Longrightarrow>
   process_and_encode pil_sample sample_settings None name (plain_image ''RGB'' w h px)
     = Inr (filename_with_suffix name ''_web'' ''jpeg'', px)"
  by (simp add: process_and_encode_def sample_settings_def sample_process sample_encode
        sample_names)

lemma sample_body_thin:
  "process_and_encode pil_sample sample_settings None name (plain_image ''RGB'' 3000 1 px)
     = Inl ValueError"
  by (simp add: process_and_encode_def sample_settings_def sample_process_thin)

lemma sample_no_watermark: "load_watermark pil_sample (ui_wm_file sample_settings) = None"
  by (simp add: load_watermark_def sample_settings_def)

lemma sample_preview:
  "preview_block pil_sample sample_settings None
     ((''wide.png'', plain_image ''RGB'' 800 600 [20]) # rest)
   = Inr (Some wide_preview, (''wide.png'', plain_image ''RGB'' 800 600 [20]) # rest)"
proof -
  have "Image_save pil_sample (plain_image ''RGB'' 800 600 [20]) [] original_kw
      = (None, [20], plain_image ''RGB'' 800 600 [20])"
    by (simp add: pil_sample_def plain_image_def)
  then show ?thesis
    by (simp add: preview_block_def process_one_same_object_def sample_settings_def
          sample_process sample_encode sample_names wide_preview_def upper_WEBP)
qed

lemma sample_preview_thin:
  "preview_block pil_sample sample_settings None
     ((''thin.png'', plain_image ''RGB'' 3000 1 [10]) # rest) = Inl ValueError"
  by (simp add: preview_block_def sample_settings_def sample_process_thin)

lemma sample_batch:
  "batch_loop pil_sample sample_settings None [(''wide.png'', plain_image ''RGB'' 800 600 [20])] []
     = Inr [(''wide_web.jpeg'', [20])]"
  "batch_loop pil_sample sample_settings None
     [(''wide.png'', plain_image ''RGB'' 800 600 [20]),
      (''tall.png'', plain_image ''RGB'' 600 900 [30]),
      (''square.png'', plain_image ''RGB'' 500 500 [40])] []
     = Inr [(''wide_web.jpeg'', [20]), (''tall_web.jpeg'', [30]), (''square_web.jpeg'', [40])]"
  "batch_loop pil_sample sample_settings None
     [(''wide.png'', plain_image ''RGB'' 800 600 [20]),
      (''thin.png'', plain_image ''RGB'' 3000 1 [10])] [] = Inl ValueError"
proof -
  have body: "process_and_encode pil_sample sample_settings None ''wide.png''
        (plain_image ''RGB'' 800 600 [20]) = Inr (''wide_web.jpeg'', [20])"
    "process_and_encode pil_sample sample_settings None ''tall.png''
        (plain_image ''RGB'' 600 900 [30]) = Inr (''tall_web.jpeg'', [30])"
    "process_and_encode pil_sample sample_settings None ''square.png''
        (plain_image ''RGB'' 500 500 [40]) = Inr (''square_web.jpeg'', [40])"
    using sample_body [of 800 600 "''wide.png''" "[20]"]
      sample_body [of 600 900 "''tall.png''" "[30]"]
      sample_body [of 500 500 "''square.png''" "[40]"]
    by (simp_all add: sample_names)
  show "batch_loop pil_sample sample_settings None
      [(''wide.png'', plain_image ''RGB'' 800 600 [20])] [] = Inr [(''wide_web.jpeg'', [20])]"
    by (simp add: body)
  show "batch_loop pil_sample sample_settings None
     [(''wide.png'', plain_image ''RGB'' 800 600 [20]),
      (''tall.png'', plain_image ''RGB'' 600 900 [30]),
      (''square.png'', plain_image ''RGB'' 500 500 [40])] []
     = Inr [(''wide_web.jpeg'', [20]), (''tall_web.jpeg'', [30]), (''square_web.jpeg'', [40])]"
    by (simp add: body)
  show "batch_loop pil_sample sample_settings None
     [(''wide.png'', plain_image ''RGB'' 800 600 [20]),
      (''thin.png'', plain_image ''RGB'' 3000 1 [10])] [] = Inl ValueError"
    by (simp add: body sample_body_thin)
qed







lemma sample_preview_raises:
  "script_run pil_sample sample_settings (Some [thin_upload, wide_upload]) False sample_now
     = Inl ValueError"
  by (simp add: script_run_def sample_read sample_no_watermark sample_preview_thin)

text \<open>
  C1. The decoder drops an upload or archive member that fails to open (the two lemmas on
  \<open>read_files\<close> and \<open>read_zip_members\<close> above), but the batch loop has no handler: an
  exception of the loop body on one image is the outcome of the whole run, whatever comes
  before or after it (\<open>batch_loop_aborts\<close>). With an 800 by 600 image followed by a 3000
  by 1 image and a target of 1000, both files decode and the preview of the first is
  shown; pressing the button raises in the resize of the second, and nothing is exported,
  although the first image alone is processed and offered for download.
\<close>

theorem batch_aborts_on_failing_image:
  "script_run pil_sample sample_settings (Some [wide_upload, thin_upload]) False sample_now
     = Inr \<lparr>ui_preview = Some wide_preview, ui_batch = None\<rparr> \<and>
   script_run pil_sample sample_settings (Some [wide_upload, thin_upload]) True sample_now
     = Inl ValueError \<and>
   script_run pil_sample sample_settings (Some [wide_upload]) True sample_now
     = Inr \<lparr>ui_preview = Some wide_preview,
            ui_batch = Some (Button
              \<lparr>db_label = ''Download wide_web.jpeg'', db_data = FileBytes [20],
               db_file_name = ''wide_web.jpeg'', db_mime = ''image/jpeg''\<rparr>)\<rparr>"
proof -
  have fmt: "upper (ui_out_fmt sample_settings) = ''JPEG''"
    by (simp add: sample_settings_def upper_WEBP)
  show ?thesis
    by (simp add: script_run_def sample_read sample_no_watermark sample_preview
          process_images_clicked_def sample_batch export_results_single fmt
          del: batch_loop.simps)
qed


end
